theory Spec2Isabelle
  imports Complex_Main "HOL-Library.AList"
begin

section \<open>JavaScript numbers\<close>

text \<open>
  The three components compute with JavaScript numbers. A number is modelled as a finite
  real or one of the three special values of the language: \<open>Infinity\<close>, \<open>-Infinity\<close>
  and \<open>NaN\<close>. Arithmetic on finite values is exact real arithmetic: rounding to 64-bit
  binary, overflow, underflow and the sign of zero are abstracted away. What the language
  does at the special values is written out: division by zero gives an infinity or \<open>NaN\<close>
  and never raises, \<open>NaN\<close> is absorbing, and every comparison with \<open>NaN\<close> is false.

  The theorems are to be read accordingly. An equation between finite values states the
  formula the program evaluates, which the program meets up to the rounding of 64-bit
  arithmetic. Where a result of the program can be lost to underflow or to a zero divisor,
  the statement is conditioned on the number the program computes, not on its input.
\<close>

datatype jsnum = Fin real | PInf | NInf | NaN

fun jneg :: "jsnum \<Rightarrow> jsnum" where
  "jneg (Fin a) = Fin (- a)"
| "jneg PInf = NInf"
| "jneg NInf = PInf"
| "jneg NaN = NaN"

fun jadd :: "jsnum \<Rightarrow> jsnum \<Rightarrow> jsnum" where
  "jadd (Fin a) (Fin b) = Fin (a + b)"
| "jadd NaN _ = NaN"
| "jadd _ NaN = NaN"
| "jadd PInf NInf = NaN"
| "jadd NInf PInf = NaN"
| "jadd PInf _ = PInf"
| "jadd _ PInf = PInf"
| "jadd NInf _ = NInf"
| "jadd _ NInf = NInf"

definition jsub :: "jsnum \<Rightarrow> jsnum \<Rightarrow> jsnum" where
  "jsub x y = jadd x (jneg y)"

text \<open>The sign of an infinite product or quotient: the infinity itself, or its negation.\<close>

definition signed :: "bool \<Rightarrow> jsnum \<Rightarrow> jsnum" where
  "signed pos x = (if pos then x else jneg x)"

fun jmul :: "jsnum \<Rightarrow> jsnum \<Rightarrow> jsnum" where
  "jmul (Fin a) (Fin b) = Fin (a * b)"
| "jmul NaN _ = NaN"
| "jmul _ NaN = NaN"
| "jmul (Fin a) y = (if a = 0 then NaN else signed (0 < a) y)"
| "jmul x (Fin b) = (if b = 0 then NaN else signed (0 < b) x)"
| "jmul PInf y = y"
| "jmul NInf y = jneg y"

fun jdiv :: "jsnum \<Rightarrow> jsnum \<Rightarrow> jsnum" where
  "jdiv (Fin a) (Fin b) =
     (if b = 0 then (if a = 0 then NaN else signed (0 < a) PInf) else Fin (a / b))"
| "jdiv NaN _ = NaN"
| "jdiv _ NaN = NaN"
| "jdiv (Fin a) _ = Fin 0"
| "jdiv x (Fin b) = signed (0 \<le> b) x"
| "jdiv _ _ = NaN"

fun jlt :: "jsnum \<Rightarrow> jsnum \<Rightarrow> bool" where
  "jlt (Fin a) (Fin b) = (a < b)"
| "jlt NaN _ = False"
| "jlt _ NaN = False"
| "jlt PInf _ = False"
| "jlt _ NInf = False"
| "jlt NInf _ = True"
| "jlt _ PInf = True"

definition jgt :: "jsnum \<Rightarrow> jsnum \<Rightarrow> bool" where
  "jgt x y = jlt y x"

text \<open>\<open>Math.min\<close> and \<open>Math.max\<close> of two arguments: \<open>NaN\<close> if either is.\<close>

definition Math_min :: "jsnum \<Rightarrow> jsnum \<Rightarrow> jsnum" where
  "Math_min x y = (if x = NaN \<or> y = NaN then NaN else if jlt y x then y else x)"

definition Math_max :: "jsnum \<Rightarrow> jsnum \<Rightarrow> jsnum" where
  "Math_max x y = (if x = NaN \<or> y = NaN then NaN else if jlt x y then y else x)"

text \<open>\<open>x || 0\<close> on a number: zero and \<open>NaN\<close> are falsy, every other number is kept.\<close>

definition or0 :: "jsnum \<Rightarrow> jsnum" where
  "or0 x = (if x = NaN \<or> x = Fin 0 then Fin 0 else x)"

text \<open>
  An object with string keys is a list of entries in insertion order. Reading a key the
  object does not have gives \<open>undefined\<close>, which arithmetic turns into \<open>NaN\<close>.
\<close>

type_synonym obj = "(string \<times> jsnum) list"

definition get :: "obj \<Rightarrow> string \<Rightarrow> jsnum" where
  "get ob k = (case map_of ob k of None \<Rightarrow> NaN | Some v \<Rightarrow> v)"

section \<open>Waste stream simulator\<close>

text \<open>The component's state \<open>wasteComposition\<close>, at its initial value.\<close>

definition categories :: "string list" where
  "categories = [''polymers'', ''packaging'', ''structuralResidues'', ''organics'', ''metals'']"

definition initialWasteComposition :: obj where
  "initialWasteComposition =
     [(''polymers'', Fin 35), (''packaging'', Fin 25), (''structuralResidues'', Fin 20),
      (''organics'', Fin 15), (''metals'', Fin 5)]"

definition decompositionRates :: obj where
  "decompositionRates =
     [(''polymers'', Fin 0.85), (''packaging'', Fin 0.78), (''structuralResidues'', Fin 0.65),
      (''organics'', Fin 0.92), (''metals'', Fin 0.45)]"

definition energyRequirements :: obj where
  "energyRequirements =
     [(''polymers'', Fin 2.3), (''packaging'', Fin 1.8), (''structuralResidues'', Fin 3.1),
      (''organics'', Fin 1.2), (''metals'', Fin 4.5)]"

record totals =
  totalEnergyNeeds :: jsnum
  totalMethaneOutput :: jsnum
  totalCarbonProduction :: jsnum
  totalHydrogenOutput :: jsnum

text \<open>The body of the \<open>forEach\<close> over the entries of the composition.\<close>

definition accumulate :: "totals \<Rightarrow> string \<times> jsnum \<Rightarrow> totals" where
  "accumulate t e =
     (let type = fst e; percentage = snd e;
          wasteAmount = jmul (jdiv percentage (Fin 100)) (Fin 100);
          decomposed = jmul wasteAmount (get decompositionRates type)
      in \<lparr> totalEnergyNeeds =
             jadd (totalEnergyNeeds t) (jmul wasteAmount (get energyRequirements type)),
           totalMethaneOutput = jadd (totalMethaneOutput t) (jmul decomposed (Fin 0.4)),
           totalCarbonProduction = jadd (totalCarbonProduction t) (jmul decomposed (Fin 0.3)),
           totalHydrogenOutput = jadd (totalHydrogenOutput t) (jmul decomposed (Fin 0.15)) \<rparr>)"

record simulation =
  energyNeeds :: jsnum
  methaneOutput :: jsnum
  carbonProduction :: jsnum
  hydrogenOutput :: jsnum
  sustainabilityScore :: jsnum
  cycleEfficiency :: jsnum

text \<open>
  \<open>runSimulation\<close>: the numbers computed in the timer callback from the current
  composition. The component stores each of them rendered by \<open>toFixed\<close>; the record
  below holds the numbers before that rendering. \<open>totalWaste\<close> is computed by the source
  and not used.
\<close>

definition runSimulation :: "obj \<Rightarrow> simulation" where
  "runSimulation wasteComposition =
     (let totalWaste = foldl jadd (Fin 0) (map snd wasteComposition);
          t = foldl accumulate
                \<lparr> totalEnergyNeeds = Fin 0, totalMethaneOutput = Fin 0,
                  totalCarbonProduction = Fin 0, totalHydrogenOutput = Fin 0 \<rparr>
                wasteComposition;
          cycleEfficiency =
            jdiv (jadd (jmul (totalMethaneOutput t) (Fin 50))
                       (jmul (totalHydrogenOutput t) (Fin 120)))
                 (totalEnergyNeeds t);
          sustainabilityScore = Math_min (Fin 100) (jmul cycleEfficiency (Fin 1.2))
      in \<lparr> energyNeeds = totalEnergyNeeds t,
           methaneOutput = totalMethaneOutput t,
           carbonProduction = totalCarbonProduction t,
           hydrogenOutput = totalHydrogenOutput t,
           sustainabilityScore = sustainabilityScore,
           cycleEfficiency = cycleEfficiency \<rparr>)"

text \<open>
  \<open>handleWasteChange\<close>: the one place a percentage is written. Its second argument
  here is the number \<open>parseFloat(value)\<close> (\<open>NaN\<close> when the text of the input field does
  not start with a number). The spread \<open>{...prev, [type]: v}\<close> overwrites the entry of an
  existing key in place and appends a new key at the end.
\<close>

definition handleWasteChange :: "obj \<Rightarrow> string \<Rightarrow> jsnum \<Rightarrow> obj" where
  "handleWasteChange prev type parsed =
     AList.update type (Math_max (Fin 0) (Math_min (Fin 100) (or0 parsed))) prev"

section \<open>Process optimizer\<close>

record parameters =
  temperature :: jsnum
  flowRate :: jsnum
  catalystEfficiency :: jsnum
  energyInput :: jsnum
  pressure :: jsnum

definition initialParameters :: parameters where
  "initialParameters =
     \<lparr> temperature = Fin 1200, flowRate = Fin 85, catalystEfficiency = Fin 92,
       energyInput = Fin 150, pressure = Fin 2.5 \<rparr>"

record optimization =
  methaneYield :: jsnum
  powerConsumption :: jsnum
  efficiency :: jsnum
  prediction :: string
  status :: string

definition msgHighTemp :: string where
  "msgHighTemp =
     ''WARNING: High temperature detected. Catalyst fouling likely in 12-15 hours.''"

definition msgLowCatalyst :: string where
  "msgLowCatalyst =
     ''ALERT: Catalyst efficiency below optimal. Recommend maintenance cycle.''"

definition msgOptimal :: string where
  "msgOptimal =
     ''OPTIMAL: System operating at peak efficiency. Methane production maximized.''"

definition msgSuboptimal :: string where
  "msgSuboptimal =
     ''SUBOPTIMAL: Adjusting parameters for improved yield. Efficiency can be increased by 15%.''"

text \<open>
  \<open>runOptimization\<close>: the numbers and the prediction computed in the timer callback.
  The three calls of \<open>Math.random()\<close> are the arguments \<open>r1\<close>, \<open>r2\<close>, \<open>r3\<close> (each in
  \<open>[0, 1)\<close>). As in the simulator, the component stores the three numbers rendered by
  \<open>toFixed\<close>; the record holds them before rendering.
\<close>

definition runOptimization :: "parameters \<Rightarrow> real \<Rightarrow> real \<Rightarrow> real \<Rightarrow> optimization" where
  "runOptimization parameters r1 r2 r3 =
     (let tempOptimal = jadd (Fin 1150) (jmul (Fin r1) (Fin 100));
          flowOptimal = jadd (Fin 80) (jmul (Fin r2) (Fin 20));
          catalystOptimal = jadd (Fin 88) (jmul (Fin r3) (Fin 12));
          methaneYield =
            jmul (jmul (jmul (jdiv (temperature parameters) (Fin 1200))
                             (jdiv (flowRate parameters) (Fin 100)))
                       (jdiv (catalystEfficiency parameters) (Fin 100)))
                 (Fin 85);
          powerConsumption =
            jmul (energyInput parameters)
                 (jsub (Fin 1) (jmul (jdiv (catalystEfficiency parameters) (Fin 100)) (Fin 0.3)));
          efficiency = jmul (jdiv methaneYield powerConsumption) (Fin 100);
          prediction =
            (if jgt (temperature parameters) (Fin 1300) then msgHighTemp
             else if jlt (catalystEfficiency parameters) (Fin 85) then msgLowCatalyst
             else if jgt efficiency (Fin 75) then msgOptimal
             else msgSuboptimal)
      in \<lparr> methaneYield = methaneYield,
           powerConsumption = powerConsumption,
           efficiency = efficiency,
           prediction = prediction,
           status = ''Optimization Complete'' \<rparr>)"

text \<open>
  \<open>handleParameterChange\<close>: as in the simulator, the second argument is the number
  \<open>parseFloat(value)\<close>, and \<open>|| 0\<close> turns \<open>NaN\<close> and zero into 0; nothing is clamped.
  The component calls it with the five parameter names only; another name would add a
  key that \<open>runOptimization\<close> never reads, so the five fields stay as they are.
\<close>

definition handleParameterChange :: "parameters \<Rightarrow> string \<Rightarrow> jsnum \<Rightarrow> parameters" where
  "handleParameterChange prev param parsed =
     (if param = ''temperature'' then prev \<lparr> temperature := or0 parsed \<rparr>
      else if param = ''flowRate'' then prev \<lparr> flowRate := or0 parsed \<rparr>
      else if param = ''catalystEfficiency'' then prev \<lparr> catalystEfficiency := or0 parsed \<rparr>
      else if param = ''energyInput'' then prev \<lparr> energyInput := or0 parsed \<rparr>
      else if param = ''pressure'' then prev \<lparr> pressure := or0 parsed \<rparr>
      else prev)"

section \<open>System dashboard\<close>

record metrics_state =
  wasteProcessed :: jsnum
  methaneStored :: jsnum
  powerUsed :: jsnum
  co2Offset :: jsnum
  systemEfficiency :: jsnum
  uptime :: jsnum

record year_projection =
  waste :: jsnum
  methane :: jsnum
  power :: jsnum
  efficiencyPercent :: jsnum

record projections_state =
  year1 :: year_projection
  year2 :: year_projection
  year3 :: year_projection

record maintenance_item =
  task :: string
  timeRemaining :: string
  priority :: string
  duration :: string

record dashboard =
  metrics :: metrics_state
  projections :: projections_state
  maintenance :: "maintenance_item list"
  alerts :: "string list"







definition alertEfficiency :: string where
  "alertEfficiency = ''System efficiency below optimal threshold. Check catalyst status.''"

definition alertPower :: string where
  "alertPower = ''Power consumption elevated. Consider load balancing.''"

definition alertDrift :: string where
  "alertDrift = ''Predictive maintenance: Flow rate sensor drift detected.''"

text \<open>
  The alert block of \<open>updateMetrics\<close>: three \<open>if\<close> statements in a row, each pushing onto
  the list. \<open>random\<close> is the value of \<open>Math.random()\<close>.
\<close>

definition currentAlerts :: "jsnum \<Rightarrow> jsnum \<Rightarrow> real \<Rightarrow> string list" where
  "currentAlerts eff basePower random =
     (let a0 = [];
          a1 = (if jlt eff (Fin 70) then a0 @ [alertEfficiency] else a0);
          a2 = (if jgt basePower (Fin 200) then a1 @ [alertPower] else a1);
          a3 = (if jgt (Fin random) (Fin 0.8) then a2 @ [alertDrift] else a2)
      in a3)"


section \<open>Reference definitions\<close>

text \<open>
  The definitions of this section are not translations of the source: they name the
  inputs and state the reference formulas that the theorems below compare the source with.
\<close>

subsection \<open>Compositions\<close>

definition zeroComposition :: obj where
  "zeroComposition = map (\<lambda>k. (k, Fin 0)) categories"

fun percentage :: "jsnum \<Rightarrow> bool" where
  "percentage (Fin r) = (0 \<le> r \<and> r \<le> 100)"
| "percentage _ = False"

fun nonneg :: "jsnum \<Rightarrow> bool" where
  "nonneg (Fin r) = (0 \<le> r)"
| "nonneg PInf = True"
| "nonneg _ = False"

fun finite_num :: "jsnum \<Rightarrow> bool" where
  "finite_num (Fin r) = True"
| "finite_num _ = False"

fun fin_value :: "jsnum \<Rightarrow> real" where
  "fin_value (Fin r) = r"
| "fin_value _ = 0"

text \<open>A valid composition: the five categories, each with a percentage in \<open>[0, 100]\<close>.\<close>

definition validComposition :: "obj \<Rightarrow> bool" where
  "validComposition c = (map fst c = categories \<and> list_all percentage (map snd c))"

text \<open>The composition that gives category \<open>k\<close> the finite percentage \<open>p k\<close>.\<close>

definition composition_of :: "(string \<Rightarrow> real) \<Rightarrow> obj" where
  "composition_of p = map (\<lambda>k. (k, Fin (p k))) categories"

definition initialPercentages :: "string \<Rightarrow> real" where
  "initialPercentages k = fin_value (get initialWasteComposition k)"

text \<open>\<open>clamp(x, lo, hi)\<close> of the specification.\<close>

definition clamp :: "jsnum \<Rightarrow> jsnum \<Rightarrow> jsnum \<Rightarrow> jsnum" where
  "clamp x lo hi = Math_max lo (Math_min hi x)"

text \<open>
  The normalizer of the specification on one value: a number is clamped into
  \<open>[0, 100]\<close>, and what is not a number becomes 0.
\<close>

fun normalizeValue :: "jsnum \<Rightarrow> jsnum" where
  "normalizeValue (Fin r) = Fin (max 0 (min 100 r))"
| "normalizeValue PInf = Fin 100"
| "normalizeValue NInf = Fin 0"
| "normalizeValue NaN = Fin 0"

subsection \<open>The reference algorithm of the decomposition calculator\<close>

definition decompositionRate :: "string \<Rightarrow> real" where
  "decompositionRate k = fin_value (get decompositionRates k)"

definition energyRequirement :: "string \<Rightarrow> real" where
  "energyRequirement k = fin_value (get energyRequirements k)"

text \<open>\<open>categoryMass = (percentage / 100) * totalMass\<close>, with \<open>totalMass = 100\<close>.\<close>

definition categoryMass :: "(string \<Rightarrow> real) \<Rightarrow> string \<Rightarrow> real" where
  "categoryMass p k = (p k / 100) * 100"

definition decomposed :: "(string \<Rightarrow> real) \<Rightarrow> string \<Rightarrow> real" where
  "decomposed p k = categoryMass p k * decompositionRate k"

definition ref_energyNeeds :: "(string \<Rightarrow> real) \<Rightarrow> real" where
  "ref_energyNeeds p = (\<Sum>k\<leftarrow>categories. categoryMass p k * energyRequirement k)"

definition ref_methane :: "(string \<Rightarrow> real) \<Rightarrow> real" where
  "ref_methane p = (\<Sum>k\<leftarrow>categories. decomposed p k * 0.40)"

definition ref_carbon :: "(string \<Rightarrow> real) \<Rightarrow> real" where
  "ref_carbon p = (\<Sum>k\<leftarrow>categories. decomposed p k * 0.30)"

definition ref_hydrogen :: "(string \<Rightarrow> real) \<Rightarrow> real" where
  "ref_hydrogen p = (\<Sum>k\<leftarrow>categories. decomposed p k * 0.15)"

definition ref_cycleEfficiency :: "(string \<Rightarrow> real) \<Rightarrow> real" where
  "ref_cycleEfficiency p = (ref_methane p * 50 + ref_hydrogen p * 120) / ref_energyNeeds p"

subsection \<open>The classifier of the specification: an ordered rule list, first match wins\<close>

datatype predictionCategory = HighTempWarning | LowCatalystAlert | Optimal | Suboptimal

fun message :: "predictionCategory \<Rightarrow> string" where
  "message HighTempWarning = msgHighTemp"
| "message LowCatalystAlert = msgLowCatalyst"
| "message Optimal = msgOptimal"
| "message Suboptimal = msgSuboptimal"

type_synonym rule = "(parameters \<Rightarrow> jsnum \<Rightarrow> bool) \<times> predictionCategory"

definition classifierRules :: "rule list" where
  "classifierRules =
     [(\<lambda>p e. jgt (temperature p) (Fin 1300), HighTempWarning),
      (\<lambda>p e. jlt (catalystEfficiency p) (Fin 85), LowCatalystAlert),
      (\<lambda>p e. jgt e (Fin 75), Optimal)]"

fun firstMatch :: "rule list \<Rightarrow> parameters \<Rightarrow> jsnum \<Rightarrow> predictionCategory" where
  "firstMatch [] p e = Suboptimal"
| "firstMatch (r # rs) p e = (if fst r p e then snd r else firstMatch rs p e)"

text \<open>Two parameter objects: the initial one made hot with a weak catalyst, and the
  initial one with the energy input set to 0.\<close>

definition hotLowCatalyst :: parameters where
  "hotLowCatalyst = initialParameters \<lparr> temperature := Fin 1400, catalystEfficiency := Fin 80 \<rparr>"

definition noEnergyInput :: parameters where
  "noEnergyInput = initialParameters \<lparr> energyInput := Fin 0 \<rparr>"

subsection \<open>The dashboard's baselines and year-1 projections\<close>





section \<open>Properties of the waste stream simulator\<close>

lemmas table_defs = get_def decompositionRates_def energyRequirements_def

lemmas ref_defs = ref_energyNeeds_def ref_methane_def ref_carbon_def ref_hydrogen_def
  decomposed_def categoryMass_def decompositionRate_def energyRequirement_def

lemmas sim_defs = runSimulation_def accumulate_def table_defs Math_min_def Let_def

text \<open>The \<open>forEach\<close> loop over a finite composition accumulates the four reference sums.\<close>

lemma foldl_accumulate:
  "foldl accumulate
     \<lparr> totalEnergyNeeds = Fin 0, totalMethaneOutput = Fin 0,
       totalCarbonProduction = Fin 0, totalHydrogenOutput = Fin 0 \<rparr>
     (composition_of p) =
   \<lparr> totalEnergyNeeds = Fin (ref_energyNeeds p), totalMethaneOutput = Fin (ref_methane p),
     totalCarbonProduction = Fin (ref_carbon p), totalHydrogenOutput = Fin (ref_hydrogen p) \<rparr>"
  by (simp add: composition_of_def categories_def accumulate_def table_defs ref_defs Let_def)

lemma runSimulation_composition_of:
  "runSimulation (composition_of p) =
     \<lparr> energyNeeds = Fin (ref_energyNeeds p),
       methaneOutput = Fin (ref_methane p),
       carbonProduction = Fin (ref_carbon p),
       hydrogenOutput = Fin (ref_hydrogen p),
       sustainabilityScore =
         Math_min (Fin 100)
           (jmul (jdiv (Fin (ref_methane p * 50 + ref_hydrogen p * 120)) (Fin (ref_energyNeeds p)))
                 (Fin 1.2)),
       cycleEfficiency =
         jdiv (Fin (ref_methane p * 50 + ref_hydrogen p * 120)) (Fin (ref_energyNeeds p)) \<rparr>"
  unfolding runSimulation_def foldl_accumulate by (simp add: Let_def)

lemma valid_is_composition_of:
  assumes "validComposition c"
  shows "\<exists>p. c = composition_of p \<and> (\<forall>k. 0 \<le> p k \<and> p k \<le> 100)"
proof -
  from assms obtain v1 v2 v3 v4 v5 where c:
    "c = [(''polymers'', v1), (''packaging'', v2), (''structuralResidues'', v3),
          (''organics'', v4), (''metals'', v5)]"
    by (auto simp: validComposition_def categories_def map_eq_Cons_conv)
  from assms c have "percentage v1" "percentage v2" "percentage v3" "percentage v4" "percentage v5"
    by (simp_all add: validComposition_def)
  then obtain r1 r2 r3 r4 r5 where v:
    "v1 = Fin r1" "v2 = Fin r2" "v3 = Fin r3" "v4 = Fin r4" "v5 = Fin r5"
    and r: "0 \<le> r1" "r1 \<le> 100" "0 \<le> r2" "r2 \<le> 100" "0 \<le> r3" "r3 \<le> 100"
       "0 \<le> r4" "r4 \<le> 100" "0 \<le> r5" "r5 \<le> 100"
    by (auto elim!: percentage.elims)
  let ?p = "\<lambda>k. if k = ''polymers'' then r1 else if k = ''packaging'' then r2
            else if k = ''structuralResidues'' then r3 else if k = ''organics'' then r4
            else if k = ''metals'' then r5 else 0"
  have "c = composition_of ?p"
    by (simp add: c v composition_of_def categories_def)
  moreover have "\<forall>k. 0 \<le> ?p k \<and> ?p k \<le> 100"
    using r by simp
  ultimately show ?thesis by blast
qed

lemma ref_nonneg:
  assumes "\<forall>k. 0 \<le> p k"
  shows "0 \<le> ref_energyNeeds p" "0 \<le> ref_methane p" "0 \<le> ref_carbon p" "0 \<le> ref_hydrogen p"
  using assms by (simp_all add: ref_defs table_defs categories_def add_nonneg_nonneg)

text \<open>The all-zero composition is what the component holds after 0 is typed into each of
  the five fields.\<close>

lemma zeroComposition_reachable:
  "foldl (\<lambda>c k. handleWasteChange c k (Fin 0)) initialWasteComposition categories =
     zeroComposition"
  by (simp add: handleWasteChange_def initialWasteComposition_def categories_def
      zeroComposition_def Math_max_def Math_min_def or0_def)

subsection \<open>The all-zero composition\<close>

text \<open>
  Claim C1, as the source has it. For the all-zero composition \<open>runSimulation\<close> computes
  \<open>energyNeeds = 0\<close>, and the division by it is not guarded: \<open>cycleEfficiency\<close> is
  \<open>0 / 0 = NaN\<close>, and \<open>sustainabilityScore = Math.min(100, NaN * 1.2)\<close> is \<open>NaN\<close> too.
\<close>

theorem zero_composition_unguarded:
  "energyNeeds (runSimulation zeroComposition) = Fin 0 \<and>
   cycleEfficiency (runSimulation zeroComposition) = NaN \<and>
   sustainabilityScore (runSimulation zeroComposition) = NaN"
  by (simp add: sim_defs zeroComposition_def categories_def)

text \<open>
  Claim C1 as stated (for the all-zero composition both \<open>energyNeeds\<close> and
  \<open>cycleEfficiency\<close> are 0) does not hold of \<open>runSimulation\<close>.
\<close>

theorem zero_composition_counterexample:
  "\<not> (energyNeeds (runSimulation zeroComposition) = Fin 0 \<and>
      cycleEfficiency (runSimulation zeroComposition) = Fin 0)"
  by (simp add: sim_defs zeroComposition_def categories_def)

subsection \<open>Bounds of the outputs\<close>

text \<open>
  Claim C4, as the source has it. For every valid composition the four outputs
  \<open>energyNeeds\<close>, \<open>methaneOutput\<close>, \<open>carbonProduction\<close> and \<open>hydrogenOutput\<close> are at least
  0. For every valid composition for which the computed \<open>energyNeeds\<close> is not 0,
  \<open>sustainabilityScore\<close> is \<open>cycleEfficiency * 1.2\<close> clamped into \<open>[0, 100]\<close>, and lies in
  \<open>[0, 100]\<close>. The condition is on the number the program computes, not on the
  composition: a percentage so small that \<open>percentage / 100\<close> underflows to 0 leaves
  \<open>energyNeeds\<close> at 0 in 64-bit arithmetic as the all-zero composition does, and the
  statement makes no promise there.
\<close>

theorem runSimulation_outputs:
  assumes "validComposition c"
  shows "nonneg (energyNeeds (runSimulation c)) \<and>
         nonneg (methaneOutput (runSimulation c)) \<and>
         nonneg (carbonProduction (runSimulation c)) \<and>
         nonneg (hydrogenOutput (runSimulation c)) \<and>
         (energyNeeds (runSimulation c) \<noteq> Fin 0 \<longrightarrow>
            sustainabilityScore (runSimulation c) =
              clamp (jmul (cycleEfficiency (runSimulation c)) (Fin 1.2)) (Fin 0) (Fin 100) \<and>
            percentage (sustainabilityScore (runSimulation c)))"
proof -
  from valid_is_composition_of [OF assms] obtain p where
    c: "c = composition_of p" and p: "\<forall>k. 0 \<le> p k \<and> p k \<le> 100"
    by blast
  from p have p0: "\<forall>k. 0 \<le> p k" by simp
  note nn = ref_nonneg [OF p0]
  have out: "nonneg (energyNeeds (runSimulation c))" "nonneg (methaneOutput (runSimulation c))"
    "nonneg (carbonProduction (runSimulation c))" "nonneg (hydrogenOutput (runSimulation c))"
    using nn by (simp_all add: c runSimulation_composition_of)
  have score: "sustainabilityScore (runSimulation c) =
              clamp (jmul (cycleEfficiency (runSimulation c)) (Fin 1.2)) (Fin 0) (Fin 100) \<and>
            percentage (sustainabilityScore (runSimulation c))"
    if "energyNeeds (runSimulation c) \<noteq> Fin 0"
  proof -
    from that have "ref_energyNeeds p \<noteq> 0"
      by (simp add: c runSimulation_composition_of)
    with nn(1) have e: "0 < ref_energyNeeds p" by simp
    define q where "q = (ref_methane p * 50 + ref_hydrogen p * 120) / ref_energyNeeds p"
    have q: "0 \<le> q"
      unfolding q_def using nn e
      by (intro divide_nonneg_pos add_nonneg_nonneg mult_nonneg_nonneg) simp_all
    have ce: "cycleEfficiency (runSimulation c) = Fin q"
      using e by (simp add: c runSimulation_composition_of q_def)
    have sc: "sustainabilityScore (runSimulation c) = Math_min (Fin 100) (Fin (q * 1.2))"
      using e by (simp add: c runSimulation_composition_of q_def)
    show ?thesis
      using q by (simp add: ce sc clamp_def Math_min_def Math_max_def)
  qed
  from out score show ?thesis by blast
qed

text \<open>The theorem at the initial composition of the component, which needs 228 kWh.\<close>

theorem runSimulation_outputs_witness:
  "validComposition initialWasteComposition \<and>
   energyNeeds (runSimulation initialWasteComposition) = Fin 228 \<and>
   nonneg (energyNeeds (runSimulation initialWasteComposition)) \<and>
   sustainabilityScore (runSimulation initialWasteComposition) =
     clamp (jmul (cycleEfficiency (runSimulation initialWasteComposition)) (Fin 1.2))
       (Fin 0) (Fin 100) \<and>
   percentage (sustainabilityScore (runSimulation initialWasteComposition))"
proof -
  have v: "validComposition initialWasteComposition"
    by (simp add: validComposition_def initialWasteComposition_def categories_def)
  have e: "energyNeeds (runSimulation initialWasteComposition) = Fin 228"
    by (simp add: sim_defs initialWasteComposition_def)
  then have n: "energyNeeds (runSimulation initialWasteComposition) \<noteq> Fin 0"
    by simp
  show ?thesis
    using runSimulation_outputs [OF v] v e n by blast
qed

text \<open>
  Claim C4 as stated fails at the all-zero composition, which is valid: its
  \<open>energyNeeds\<close> is 0 and its score is \<open>NaN\<close>, not a number of \<open>[0, 100]\<close>.
\<close>

theorem zero_composition_score_counterexample:
  "validComposition zeroComposition \<and>
   energyNeeds (runSimulation zeroComposition) = Fin 0 \<and>
   \<not> percentage (sustainabilityScore (runSimulation zeroComposition))"
  by (simp add: sim_defs zeroComposition_def categories_def validComposition_def)

subsection \<open>The reference algorithm\<close>

text \<open>
  Claim C5. For every composition of the five categories with finite percentages,
  \<open>runSimulation\<close> returns the sums of the reference algorithm: \<open>energyNeeds\<close> is the sum
  of \<open>categoryMass * energyRequirement\<close>, and methane, carbon and hydrogen are the sums of
  \<open>decomposed\<close> times 0.40, 0.30 and 0.15, where \<open>categoryMass = (percentage / 100) * 100\<close>
  and \<open>decomposed = categoryMass * decompositionRate\<close>. When \<open>energyNeeds\<close> is not zero,
  \<open>cycleEfficiency = (methane * 50 + hydrogen * 120) / energyNeeds\<close>.
\<close>

theorem runSimulation_reference:
  "energyNeeds (runSimulation (composition_of p)) = Fin (ref_energyNeeds p) \<and>
   methaneOutput (runSimulation (composition_of p)) = Fin (ref_methane p) \<and>
   carbonProduction (runSimulation (composition_of p)) = Fin (ref_carbon p) \<and>
   hydrogenOutput (runSimulation (composition_of p)) = Fin (ref_hydrogen p) \<and>
   (ref_energyNeeds p \<noteq> 0 \<longrightarrow>
      cycleEfficiency (runSimulation (composition_of p)) = Fin (ref_cycleEfficiency p))"
  by (simp add: runSimulation_composition_of ref_cycleEfficiency_def)

text \<open>The theorem at the initial composition: 228 kWh and a cycle efficiency of 13.05.\<close>

theorem runSimulation_reference_witness:
  "composition_of initialPercentages = initialWasteComposition \<and>
   ref_energyNeeds initialPercentages = 228 \<and>
   energyNeeds (runSimulation initialWasteComposition) = Fin 228 \<and>
   cycleEfficiency (runSimulation initialWasteComposition) =
     Fin (ref_cycleEfficiency initialPercentages) \<and>
   ref_cycleEfficiency initialPercentages = 13.05"
proof -
  have c: "composition_of initialPercentages = initialWasteComposition"
    by (simp add: composition_of_def initialPercentages_def initialWasteComposition_def
        categories_def get_def)
  have e: "ref_energyNeeds initialPercentages = 228"
    by (simp add: ref_defs table_defs categories_def initialPercentages_def
        initialWasteComposition_def)
  have m: "ref_methane initialPercentages = 31.32"
    by (simp add: ref_defs table_defs categories_def initialPercentages_def
        initialWasteComposition_def)
  have h: "ref_hydrogen initialPercentages = 11.745"
    by (simp add: ref_defs table_defs categories_def initialPercentages_def
        initialWasteComposition_def)
  have ce: "ref_cycleEfficiency initialPercentages = 13.05"
    by (simp add: ref_cycleEfficiency_def e m h)
  show ?thesis
    using runSimulation_reference [of initialPercentages] c e ce by simp
qed

section \<open>Properties of the process optimizer\<close>

lemma messages_distinct: "msgHighTemp \<noteq> msgLowCatalyst"
  by (simp add: msgHighTemp_def msgLowCatalyst_def)

text \<open>An energy input of 0 is what the component holds after the field is emptied
  (\<open>parseFloat\<close> gives \<open>NaN\<close>) or set to 0.\<close>

lemma noEnergyInput_reachable:
  "handleParameterChange initialParameters ''energyInput'' NaN = noEnergyInput"
  "handleParameterChange initialParameters ''energyInput'' (Fin 0) = noEnergyInput"
  by (simp_all add: handleParameterChange_def noEnergyInput_def or0_def)

subsection \<open>The diagnostic classification\<close>

text \<open>
  Claim C2. For every parameter object the prediction of \<open>runOptimization\<close> is the
  outcome of the priority-ordered rule list, first match wins: temperature above 1300
  gives the high-temperature warning; otherwise catalyst efficiency below 85 gives the
  low-catalyst alert; otherwise efficiency above 75 gives Optimal; otherwise Suboptimal.
  With both temperature above 1300 and catalyst efficiency below 85 the prediction is the
  high-temperature warning and not the low-catalyst alert.
\<close>

theorem prediction_first_match:
  "prediction (runOptimization p r1 r2 r3) =
     message (firstMatch classifierRules p (efficiency (runOptimization p r1 r2 r3))) \<and>
   (jgt (temperature p) (Fin 1300) \<longrightarrow>
      prediction (runOptimization p r1 r2 r3) = message HighTempWarning) \<and>
   (\<not> jgt (temperature p) (Fin 1300) \<and> jlt (catalystEfficiency p) (Fin 85) \<longrightarrow>
      prediction (runOptimization p r1 r2 r3) = message LowCatalystAlert) \<and>
   (\<not> jgt (temperature p) (Fin 1300) \<and> \<not> jlt (catalystEfficiency p) (Fin 85) \<and>
    jgt (efficiency (runOptimization p r1 r2 r3)) (Fin 75) \<longrightarrow>
      prediction (runOptimization p r1 r2 r3) = message Optimal) \<and>
   (\<not> jgt (temperature p) (Fin 1300) \<and> \<not> jlt (catalystEfficiency p) (Fin 85) \<and>
    \<not> jgt (efficiency (runOptimization p r1 r2 r3)) (Fin 75) \<longrightarrow>
      prediction (runOptimization p r1 r2 r3) = message Suboptimal) \<and>
   (jgt (temperature p) (Fin 1300) \<and> jlt (catalystEfficiency p) (Fin 85) \<longrightarrow>
      prediction (runOptimization p r1 r2 r3) \<noteq> message LowCatalystAlert)"
  using messages_distinct
  by (simp add: runOptimization_def classifierRules_def Let_def)

text \<open>The theorem at temperature 1400 and catalyst efficiency 80.\<close>

theorem prediction_first_match_witness:
  "jgt (temperature hotLowCatalyst) (Fin 1300) \<and>
   jlt (catalystEfficiency hotLowCatalyst) (Fin 85) \<and>
   prediction (runOptimization hotLowCatalyst (1/2) (1/2) (1/2)) = message HighTempWarning \<and>
   prediction (runOptimization hotLowCatalyst (1/2) (1/2) (1/2)) \<noteq> message LowCatalystAlert"
proof -
  have t: "jgt (temperature hotLowCatalyst) (Fin 1300)"
    by (simp add: hotLowCatalyst_def initialParameters_def jgt_def)
  have c: "jlt (catalystEfficiency hotLowCatalyst) (Fin 85)"
    by (simp add: hotLowCatalyst_def initialParameters_def)
  show ?thesis
    using prediction_first_match [of hotLowCatalyst "1/2" "1/2" "1/2"] t c by blast
qed

subsection \<open>The three formulas\<close>

text \<open>
  Claim C3, as the source has it. For every parameter object with finite numbers,
  \<open>methaneYield = (temperature/1200) * (flowRate/100) * (catalystEfficiency/100) * 85\<close>,
  \<open>powerConsumption = energyInput * (1 - (catalystEfficiency/100) * 0.3)\<close>, and, when
  \<open>powerConsumption\<close> is not zero, \<open>efficiency = (methaneYield / powerConsumption) * 100\<close>.
  The division is not guarded: when \<open>powerConsumption\<close> is zero, \<open>efficiency\<close> is not a
  finite number (it is an infinity or \<open>NaN\<close>).
\<close>

theorem runOptimization_formulas:
  "methaneYield (runOptimization
      \<lparr> temperature = Fin t, flowRate = Fin f, catalystEfficiency = Fin c,
        energyInput = Fin e, pressure = pr \<rparr> r1 r2 r3) =
     Fin ((t / 1200) * (f / 100) * (c / 100) * 85) \<and>
   powerConsumption (runOptimization
      \<lparr> temperature = Fin t, flowRate = Fin f, catalystEfficiency = Fin c,
        energyInput = Fin e, pressure = pr \<rparr> r1 r2 r3) =
     Fin (e * (1 - (c / 100) * 0.3)) \<and>
   (e * (1 - (c / 100) * 0.3) \<noteq> 0 \<longrightarrow>
      efficiency (runOptimization
        \<lparr> temperature = Fin t, flowRate = Fin f, catalystEfficiency = Fin c,
          energyInput = Fin e, pressure = pr \<rparr> r1 r2 r3) =
      Fin (((t / 1200) * (f / 100) * (c / 100) * 85) / (e * (1 - (c / 100) * 0.3)) * 100)) \<and>
   (e * (1 - (c / 100) * 0.3) = 0 \<longrightarrow>
      \<not> finite_num (efficiency (runOptimization
        \<lparr> temperature = Fin t, flowRate = Fin f, catalystEfficiency = Fin c,
          energyInput = Fin e, pressure = pr \<rparr> r1 r2 r3)))"
  by (simp add: runOptimization_def Let_def jsub_def signed_def)

text \<open>The theorem at the initial parameters: 66.47 L/h at 108.6 kW.\<close>

theorem runOptimization_formulas_witness:
  "(150::real) * (1 - (92 / 100) * 0.3) \<noteq> 0 \<and>
   methaneYield (runOptimization initialParameters (1/2) (1/2) (1/2)) = Fin 66.47 \<and>
   powerConsumption (runOptimization initialParameters (1/2) (1/2) (1/2)) = Fin 108.6 \<and>
   efficiency (runOptimization initialParameters (1/2) (1/2) (1/2)) = Fin (33235 / 543)"
  using runOptimization_formulas [of 1200 85 92 150 "Fin 2.5" "1/2" "1/2" "1/2"]
  by (simp add: initialParameters_def)

text \<open>
  Claim C3 as stated (a zero \<open>powerConsumption\<close> gives efficiency 0) fails with the
  energy input at 0: \<open>powerConsumption\<close> is 0 and \<open>efficiency\<close> is \<open>Infinity\<close>.
\<close>

theorem zero_power_counterexample:
  "powerConsumption (runOptimization noEnergyInput (1/2) (1/2) (1/2)) = Fin 0 \<and>
   efficiency (runOptimization noEnergyInput (1/2) (1/2) (1/2)) = PInf \<and>
   efficiency (runOptimization noEnergyInput (1/2) (1/2) (1/2)) \<noteq> Fin 0"
  by (simp add: runOptimization_def noEnergyInput_def initialParameters_def Let_def jsub_def
      signed_def)

subsection \<open>The random draws\<close>

text \<open>
  Claim C6. The record returned by \<open>runOptimization\<close> depends on the parameters only:
  whatever the three random draws behind \<open>tempOptimal\<close>, \<open>flowOptimal\<close> and
  \<open>catalystOptimal\<close> are, the yield, the power consumption, the efficiency, the
  prediction and the status are the same.
\<close>

theorem runOptimization_random_independent:
  "runOptimization p r1 r2 r3 = runOptimization p r1' r2' r3'"
  by (simp add: runOptimization_def Let_def)

section \<open>Properties of the system dashboard\<close>







lemma alerts_distinct:
  "alertEfficiency \<noteq> alertPower" "alertEfficiency \<noteq> alertDrift" "alertPower \<noteq> alertDrift"
  by (simp_all add: alertEfficiency_def alertPower_def alertDrift_def)

text \<open>
  Claim C8. The three alert rules are independent checks: the efficiency alert is in the
  list exactly when \<open>efficiency < 70\<close>, the power alert exactly when \<open>power > 200\<close>, and
  the drift alert exactly when the random draw exceeds 0.8. At efficiency 65 and power 150
  the list has the efficiency alert and not the power alert, whatever the random draw is.
\<close>

theorem alerts_independent:
  "(alertEfficiency \<in> set (currentAlerts e p r) \<longleftrightarrow> jlt e (Fin 70)) \<and>
   (alertPower \<in> set (currentAlerts e p r) \<longleftrightarrow> jgt p (Fin 200)) \<and>
   (alertDrift \<in> set (currentAlerts e p r) \<longleftrightarrow> 0.8 < r) \<and>
   alertEfficiency \<in> set (currentAlerts (Fin 65) (Fin 150) r) \<and>
   alertPower \<notin> set (currentAlerts (Fin 65) (Fin 150) r)"
  using alerts_distinct alerts_distinct [symmetric]
  by (simp add: currentAlerts_def Let_def jgt_def)

section \<open>Properties of the composition update\<close>

lemma list_all_update:
  "list_all P (map snd al) \<Longrightarrow> P v \<Longrightarrow> list_all P (map snd (AList.update k v al))"
  by (induction al) auto

lemma written_value:
  "Math_max (Fin 0) (Math_min (Fin 100) (or0 v)) = normalizeValue v"
  by (cases v) (auto simp: Math_max_def Math_min_def or0_def)

lemma percentage_normalizeValue: "percentage (normalizeValue v)"
  by (cases v) auto

text \<open>
  Claim C9. \<open>handleWasteChange\<close> on a valid composition and one of the five categories
  writes the parsed value clamped into \<open>[0, 100]\<close>, writes 0 when the value is not a
  number, and returns a composition with the same five keys, every value of which is again
  in \<open>[0, 100]\<close>.
\<close>

theorem handleWasteChange_normalizes:
  assumes "validComposition prev" and "type \<in> set categories"
  shows "map fst (handleWasteChange prev type v) = map fst prev \<and>
         map fst (handleWasteChange prev type v) = categories \<and>
         get (handleWasteChange prev type v) type = normalizeValue v \<and>
         percentage (get (handleWasteChange prev type v) type) \<and>
         get (handleWasteChange prev type NaN) type = Fin 0 \<and>
         validComposition (handleWasteChange prev type v)"
proof -
  from assms have k: "map fst prev = categories" and "type \<in> set (map fst prev)"
    and vs: "list_all percentage (map snd prev)"
    by (simp_all add: validComposition_def)
  then have keys: "map fst (handleWasteChange prev type v) = categories"
    by (simp add: handleWasteChange_def update_keys)
  have val: "get (handleWasteChange prev type x) type = normalizeValue x" for x
    by (simp add: handleWasteChange_def get_def update_conv' written_value)
  have "list_all percentage (map snd (handleWasteChange prev type v))"
    unfolding handleWasteChange_def written_value
    by (rule list_all_update [OF vs percentage_normalizeValue])
  with keys have "validComposition (handleWasteChange prev type v)"
    by (simp add: validComposition_def)
  with keys k val [of v] val [of NaN] percentage_normalizeValue [of v] show ?thesis
    by simp
qed

text \<open>The theorem at the initial composition, with 150 typed for the metals.\<close>

theorem handleWasteChange_normalizes_witness:
  "validComposition initialWasteComposition \<and> ''metals'' \<in> set categories \<and>
   handleWasteChange initialWasteComposition ''metals'' (Fin 150) =
     [(''polymers'', Fin 35), (''packaging'', Fin 25), (''structuralResidues'', Fin 20),
      (''organics'', Fin 15), (''metals'', Fin 100)] \<and>
   get (handleWasteChange initialWasteComposition ''metals'' (Fin 150)) ''metals'' = Fin 100 \<and>
   validComposition (handleWasteChange initialWasteComposition ''metals'' (Fin 150))"
proof -
  have v: "validComposition initialWasteComposition"
    by (simp add: validComposition_def initialWasteComposition_def categories_def)
  have m: "''metals'' \<in> set categories"
    by (simp add: categories_def)
  have h: "handleWasteChange initialWasteComposition ''metals'' (Fin 150) =
     [(''polymers'', Fin 35), (''packaging'', Fin 25), (''structuralResidues'', Fin 20),
      (''organics'', Fin 15), (''metals'', Fin 100)]"
    by (simp add: handleWasteChange_def initialWasteComposition_def Math_max_def Math_min_def
        or0_def)
  show ?thesis
    using handleWasteChange_normalizes [OF v m, of "Fin 150"] v m h by simp
qed

text \<open>
  Claim C10. \<open>handleWasteChange\<close> changes the entry of the category it is given and no
  other: every other key reads as it did before, for every composition, category and
  value.
\<close>

theorem handleWasteChange_frame:
  "k \<noteq> type \<longrightarrow>
     map_of (handleWasteChange prev type v) k = map_of prev k \<and>
     get (handleWasteChange prev type v) k = get prev k"
  by (simp add: handleWasteChange_def get_def update_conv')

text \<open>The theorem at the initial composition: writing the metals leaves the polymers.\<close>

theorem handleWasteChange_frame_witness:
  "''polymers'' \<noteq> ''metals'' \<and>
   get (handleWasteChange initialWasteComposition ''metals'' (Fin 150)) ''polymers'' = Fin 35 \<and>
   get initialWasteComposition ''polymers'' = Fin 35"
proof -
  have g: "get initialWasteComposition ''polymers'' = Fin 35"
    by (simp add: get_def initialWasteComposition_def)
  have n: "''polymers'' \<noteq> ''metals''" by simp
  show ?thesis
    using handleWasteChange_frame
      [of "''polymers''" "''metals''" initialWasteComposition "Fin 150"] g n
    by simp
qed

end
